theory Spec2Isabelle
  imports Main
begin

section \<open>The license server (part\_000): data model\<close>

text \<open>
  The server keeps one SQLite table \<^verbatim>\<open>licenses\<close>. A row is a record with the columns
  of the \<^verbatim>\<open>CREATE TABLE\<close> statement (the column \<^verbatim>\<open>meta\<close> is never read or written
  by any handler and is left out; the column \<^verbatim>\<open>id\<close> is called \<open>row_id\<close>).
  Nullable TEXT columns are \<open>string option\<close> (\<open>None\<close> is SQL NULL).

  Timestamps are stored by the source as ISO-8601 strings produced by
  \<^verbatim>\<open>Date.prototype.toISOString\<close> and compared after \<^verbatim>\<open>new Date(...)\<close> has parsed them
  back; the string determines the millisecond time value and the other way round, so a
  timestamp is modelled as that time value, an \<open>int\<close> of milliseconds since the epoch.
  The column \<^verbatim>\<open>active\<close> only ever holds 1 or 0 and is a \<open>bool\<close>.
\<close>

record license_row =
  row_id :: string
  key :: string
  tier :: string
  owner_email :: "string option"
  created_at :: int
  expires_at :: "int option"
  active :: bool
  bound_ip :: "string option"
  last_seen_ip :: "string option"
  last_validated :: "int option"

type_synonym db = "license_row list"

datatype js_error = RangeError | SqliteConstraint

text \<open>Server configuration, read from the process environment at start-up.\<close>

record config =
  ADMIN_TOKEN :: string
  BIND_IP_ON_FIRST_VALIDATE :: bool

text \<open>
  JavaScript truthiness of a value that is \<^verbatim>\<open>undefined\<close>/\<^verbatim>\<open>null\<close> or a string:
  only a non-empty string is truthy.
\<close>

definition truthy :: "string option \<Rightarrow> bool" where
  "truthy v = (case v of None \<Rightarrow> False | Some s \<Rightarrow> s \<noteq> [])"

subsection \<open>The three SQL statements the handlers use\<close>

text \<open>\<^verbatim>\<open>SELECT * FROM licenses WHERE key = ?\<close> with \<^verbatim>\<open>.get\<close>: the first matching row.\<close>

definition select_by_key :: "db \<Rightarrow> string \<Rightarrow> license_row option" where
  "select_by_key d k = find (\<lambda>r. key r = k) d"

text \<open>\<^verbatim>\<open>UPDATE licenses SET ... WHERE key = ?\<close>: every matching row is rewritten.\<close>

definition update_by_key :: "(license_row \<Rightarrow> license_row) \<Rightarrow> string \<Rightarrow> db \<Rightarrow> db" where
  "update_by_key f k d = map (\<lambda>r. if key r = k then f r else r) d"

text \<open>
  \<^verbatim>\<open>INSERT INTO licenses ...\<close>: \<^verbatim>\<open>id\<close> is the primary key and \<^verbatim>\<open>key\<close> is UNIQUE, so
  the statement throws when a row with the same id or the same key exists.
\<close>

definition insert_row :: "license_row \<Rightarrow> db \<Rightarrow> js_error + db" where
  "insert_row r d =
     (if list_ex (\<lambda>x. row_id x = row_id r \<or> key x = key r) d
      then Inl SqliteConstraint else Inr (d @ [r]))"

subsection \<open>Dates\<close>

text \<open>
  A JavaScript \<^verbatim>\<open>Date\<close> is valid when its time value is a number of magnitude at most
  8.64e15 ms; \<^verbatim>\<open>toISOString\<close> throws a RangeError on an invalid date. The argument is
  \<open>None\<close> for NaN. All the integers involved below the bound are exact as doubles.
\<close>

definition toISOString :: "int option \<Rightarrow> js_error + int" where
  "toISOString t =
     (case t of
        None \<Rightarrow> Inl RangeError
      | Some v \<Rightarrow> if \<bar>v\<bar> \<le> 8640000000000000 then Inr v else Inl RangeError)"

text \<open>
  \<^verbatim>\<open>Date.now() + (days * 86400000)\<close>, where \<open>days\<close> is the value of
  \<^verbatim>\<open>parseInt(..., 10)\<close>: \<open>None\<close> stands for NaN, which the arithmetic propagates.
\<close>

definition expiry_time :: "int \<Rightarrow> int option \<Rightarrow> int option" where
  "expiry_time date_now days = (case days of None \<Rightarrow> None | Some n \<Rightarrow> Some (date_now + n * 86400000))"

text \<open>
  The \<^verbatim>\<open>days\<close> input of a request. \<open>None\<close>: the field is absent (in the query of
  /generate, absent or empty), and the source's default (the number 30, or the string
  '30' in the query) applies. \<open>Some v\<close>: the field is present
  and \<open>v\<close> is what \<^verbatim>\<open>parseInt(days, 10)\<close> evaluates to on it (\<open>None\<close> for NaN).
\<close>

definition days_or_default :: "int option option \<Rightarrow> int option" where
  "days_or_default d = (case d of None \<Rightarrow> Some 30 | Some v \<Rightarrow> v)"

subsection \<open>Strings\<close>

text \<open>
  A \<open>char\<close> is one code unit below 256. Node decodes the bytes of a header value as
  latin1, so a header value is exactly such a string. \<^verbatim>\<open>String.prototype.toUpperCase\<close> is
  modelled on the ASCII letters.
\<close>

definition char_upper :: "char \<Rightarrow> char" where
  "char_upper c =
     (let n = (of_char c :: nat) in if 97 \<le> n \<and> n \<le> 122 then char_of (n - 32) else c)"

definition toUpperCase :: "string \<Rightarrow> string" where
  "toUpperCase s = map char_upper s"

text \<open>
  \<^verbatim>\<open>String.prototype.trim\<close> strips the WhiteSpace and LineTerminator code points. Below
  256 these are TAB, LF, VT, FF, CR (9 to 13), SPACE (32) and NO-BREAK SPACE (160); the
  others (U+1680, U+2000 to U+200A, U+2028, U+2029, U+202F, U+205F, U+3000, U+FEFF) do
  not occur in a latin1 string.
\<close>

definition is_space :: "char \<Rightarrow> bool" where
  "is_space c = (let n = (of_char c :: nat) in (9 \<le> n \<and> n \<le> 13) \<or> n = 32 \<or> n = 160)"

definition trim :: "string \<Rightarrow> string" where
  "trim s = rev (dropWhile is_space (rev (dropWhile is_space s)))"

subsection \<open>Helpers of the source\<close>

text \<open>
  \<^verbatim>\<open>requireAdmin\<close>: the request passes when the header \<^verbatim>\<open>x-admin-token\<close> is present,
  non-empty and equal to the configured token.
\<close>

definition requireAdmin :: "config \<Rightarrow> string option \<Rightarrow> bool" where
  "requireAdmin cfg token = (truthy token \<and> token = Some (ADMIN_TOKEN cfg))"

text \<open>
  \<^verbatim>\<open>makeKey(tierChar)\<close>; \<open>hex\<close> is the value of
  \<^verbatim>\<open>crypto.randomBytes(12).toString('hex')\<close>, the one random draw of the function.
\<close>

definition makeKey :: "string \<Rightarrow> string \<Rightarrow> string" where
  "makeKey tierChar hex = tierChar @ ''-'' @ toUpperCase hex"

text \<open>What \<^verbatim>\<open>getRequestIP\<close> reads from the request.\<close>

record ip_source =
  x_client_ip :: "string option"
  x_forwarded_for :: "string option"
  req_ip :: "string option"
  remoteAddress :: "string option"

text \<open>JavaScript \<^verbatim>\<open>a || b\<close> on values that are absent or strings.\<close>

definition js_or :: "string option \<Rightarrow> string option \<Rightarrow> string option" where
  "js_or a b = (if truthy a then a else b)"

definition getRequestIP :: "ip_source \<Rightarrow> string" where
  "getRequestIP req =
     (let forwarded = js_or (x_client_ip req) (x_forwarded_for req)
      in if truthy forwarded
         then (case forwarded of
                 Some f \<Rightarrow> trim (takeWhile (\<lambda>c. c \<noteq> CHR '','') f)
               | None \<Rightarrow> [])
         else (let ip = (case js_or (js_or (req_ip req) (remoteAddress req)) (Some []) of
                           Some a \<Rightarrow> a
                         | None \<Rightarrow> [])
               in if take 7 ip = ''::ffff:'' then drop 7 ip else ip))"

subsection \<open>Responses\<close>

text \<open>The JSON bodies the handlers send, one constructor per shape.\<close>

datatype json_body =
    ErrorBody string
  | ValidateFail string "string option" "string option"
  | ValidateOk string string "string option" "int option" string
  | GenerateOk string string int int "string option"
  | ActivateOk string bool int
  | RenewOk string int
  | DeactivateOk string
  | InfoOk license_row

record response =
  status :: nat
  body :: json_body

definition respond :: "nat \<Rightarrow> json_body \<Rightarrow> response" where
  "respond s b = \<lparr>status = s, body = b\<rparr>"

section \<open>The handlers\<close>

text \<open>
  Each handler takes the configuration, the table, the request and the values it reads
  from the clock and the random sources, and returns the new table with the response.
  Every exception thrown inside a handler's \<^verbatim>\<open>try\<close> is caught and answered with
  status 500; the statements before the throw have taken effect, those after it have not.
\<close>

subsection \<open>GET /generate\<close>

record generate_req =
  g_token :: "string option"
  g_tier :: "string option"
  g_email :: "string option"
  g_days :: "int option option"

definition tier_name :: "string \<Rightarrow> string" where
  "tier_name t = (if t = ''A'' then ''Aegis'' else if t = ''G'' then ''Guardian'' else ''Sentinel'')"

text \<open>Line 95: \<^verbatim>\<open>(req.query.tier || 'S').toUpperCase()\<close>.\<close>

definition tier_of_query :: "string option \<Rightarrow> string" where
  "tier_of_query q = toUpperCase (case js_or q (Some ''S'') of Some s \<Rightarrow> s | None \<Rightarrow> ''S'')"

text \<open>
  \<open>date_now\<close> is \<^verbatim>\<open>Date.now()\<close> of line 100, \<open>created\<close> the \<^verbatim>\<open>new Date()\<close> of line 104,
  \<open>hex\<close> the random draw of \<^verbatim>\<open>makeKey\<close> and \<open>uuid\<close> the value of \<^verbatim>\<open>uuidv4()\<close>.
\<close>

definition generate_handler ::
  "config \<Rightarrow> db \<Rightarrow> generate_req \<Rightarrow> int \<Rightarrow> int \<Rightarrow> string \<Rightarrow> string \<Rightarrow> db \<times> response" where
  "generate_handler cfg d req date_now created hex uuid =
     (if \<not> requireAdmin cfg (g_token req) then (d, respond 401 (ErrorBody ''unauthorized''))
      else
        (let t = tier_of_query (g_tier req);
             email = js_or (g_email req) None;
             k = makeKey t hex
         in if \<not> List.member [''S'', ''G'', ''A''] t
            then (d, respond 400 (ErrorBody ''invalid tier''))
            else
              (case toISOString (expiry_time date_now (days_or_default (g_days req))) of
                 Inl e \<Rightarrow> (d, respond 500 (ErrorBody ''server_error''))
               | Inr expiresAt \<Rightarrow>
                   (case insert_row
                           \<lparr>row_id = uuid, key = k, tier = t, owner_email = email,
                            created_at = created, expires_at = Some expiresAt, active = True,
                            bound_ip = None, last_seen_ip = None, last_validated = None\<rparr> d of
                      Inl e \<Rightarrow> (d, respond 500 (ErrorBody ''server_error''))
                    | Inr d' \<Rightarrow>
                        (d', respond 200 (GenerateOk k (tier_name t) expiresAt created email))))))"

subsection \<open>POST /activate\<close>

record activate_req =
  a_token :: "string option"
  a_license :: "string option"
  a_days :: "int option option"
  a_owner_email :: "string option"

text \<open>
  \<open>date_now\<close> is \<^verbatim>\<open>Date.now()\<close> of line 123, \<open>now\<close> the \<^verbatim>\<open>new Date()\<close> of line 124.
  The destructuring default \<^verbatim>\<open>owner_email = null\<close> makes an omitted field NULL.
\<close>

definition activate_handler ::
  "config \<Rightarrow> db \<Rightarrow> activate_req \<Rightarrow> int \<Rightarrow> int \<Rightarrow> string \<Rightarrow> db \<times> response" where
  "activate_handler cfg d req date_now now uuid =
     (if \<not> requireAdmin cfg (a_token req) then (d, respond 401 (ErrorBody ''unauthorized''))
      else case (if truthy (a_license req) then a_license req else None) of
        None \<Rightarrow> (d, respond 400 (ErrorBody ''license required''))
      | Some license \<Rightarrow>
         (case toISOString (expiry_time date_now (days_or_default (a_days req))) of
            Inl e \<Rightarrow> (d, respond 500 (ErrorBody ''server_error''))
          | Inr expiresAt \<Rightarrow>
             (case select_by_key d license of
                None \<Rightarrow>
                  (case insert_row
                          \<lparr>row_id = uuid, key = license, tier = ''S'',
                           owner_email = a_owner_email req, created_at = now,
                           expires_at = Some expiresAt, active = True,
                           bound_ip = None, last_seen_ip = None, last_validated = None\<rparr> d of
                     Inl e \<Rightarrow> (d, respond 500 (ErrorBody ''server_error''))
                   | Inr d' \<Rightarrow> (d', respond 200 (ActivateOk license True expiresAt)))
              | Some row \<Rightarrow>
                  (update_by_key
                     (\<lambda>r. r\<lparr>active := True, expires_at := Some expiresAt,
                            owner_email := a_owner_email req\<rparr>) license d,
                   respond 200 (ActivateOk license False expiresAt)))))"

subsection \<open>POST /renew\<close>

record renew_req =
  r_token :: "string option"
  r_license :: "string option"
  r_days :: "int option option"

definition renew_handler :: "config \<Rightarrow> db \<Rightarrow> renew_req \<Rightarrow> int \<Rightarrow> db \<times> response" where
  "renew_handler cfg d req date_now =
     (if \<not> requireAdmin cfg (r_token req) then (d, respond 401 (ErrorBody ''unauthorized''))
      else case (if truthy (r_license req) then r_license req else None) of
        None \<Rightarrow> (d, respond 400 (ErrorBody ''license required''))
      | Some license \<Rightarrow>
         (case select_by_key d license of
            None \<Rightarrow> (d, respond 404 (ErrorBody ''not_found''))
          | Some row \<Rightarrow>
             (case toISOString (expiry_time date_now (days_or_default (r_days req))) of
                Inl e \<Rightarrow> (d, respond 500 (ErrorBody ''server_error''))
              | Inr expiresAt \<Rightarrow>
                  (update_by_key (\<lambda>r. r\<lparr>expires_at := Some expiresAt, active := True\<rparr>) license d,
                   respond 200 (RenewOk license expiresAt)))))"

subsection \<open>POST /deactivate\<close>

record deactivate_req =
  d_token :: "string option"
  d_license :: "string option"

definition deactivate_handler :: "config \<Rightarrow> db \<Rightarrow> deactivate_req \<Rightarrow> db \<times> response" where
  "deactivate_handler cfg d req =
     (if \<not> requireAdmin cfg (d_token req) then (d, respond 401 (ErrorBody ''unauthorized''))
      else case (if truthy (d_license req) then d_license req else None) of
        None \<Rightarrow> (d, respond 400 (ErrorBody ''license required''))
      | Some license \<Rightarrow>
          (update_by_key (\<lambda>r. r\<lparr>active := False\<rparr>) license d,
           respond 200 (DeactivateOk license)))"

subsection \<open>GET /info\<close>

definition info_handler :: "db \<Rightarrow> string option \<Rightarrow> db \<times> response" where
  "info_handler d lic =
     (case (if truthy lic then lic else None) of
        None \<Rightarrow> (d, respond 400 (ErrorBody ''license required''))
      | Some license \<Rightarrow>
         (case select_by_key d license of
            None \<Rightarrow> (d, respond 404 (ErrorBody ''not_found''))
          | Some row \<Rightarrow> (d, respond 200 (InfoOk row))))"

subsection \<open>GET /validate\<close>

record validate_req =
  v_license :: "string option"
  v_source :: ip_source

text \<open>
  \<open>now\<close> is the \<^verbatim>\<open>new Date()\<close> of line 193 (written to \<^verbatim>\<open>last_validated\<close>), \<open>now_chk\<close> the
  \<^verbatim>\<open>new Date()\<close> of line 202 (compared with \<^verbatim>\<open>expires_at\<close>). The tests
  \<^verbatim>\<open>row.expires_at && ...\<close> and \<^verbatim>\<open>if (row.bound_ip)\<close> are truthiness tests: a NULL expiry
  never expires, and a NULL or empty \<^verbatim>\<open>bound_ip\<close> counts as unbound. \<open>is_expired\<close> is
  the condition of line 202, \<^verbatim>\<open>row.expires_at && new Date(row.expires_at) < new Date()\<close>. The three
  \<^verbatim>\<open>UPDATE\<close> statements are separate statements, in the order of the source.
\<close>

definition is_expired :: "license_row \<Rightarrow> int \<Rightarrow> bool" where
  "is_expired row now_chk = (case expires_at row of None \<Rightarrow> False | Some e \<Rightarrow> e < now_chk)"

definition validate_handler ::
  "config \<Rightarrow> db \<Rightarrow> validate_req \<Rightarrow> int \<Rightarrow> int \<Rightarrow> db \<times> response" where
  "validate_handler cfg d req now now_chk =
     (case (if truthy (v_license req) then v_license req else None) of
        None \<Rightarrow> (d, respond 400 (ValidateFail ''license required'' None None))
      | Some license \<Rightarrow>
         (let incomingIp = getRequestIP (v_source req)
          in case select_by_key d license of
               None \<Rightarrow> (d, respond 404 (ValidateFail ''not_found'' None None))
             | Some row \<Rightarrow>
                 if \<not> active row then (d, respond 200 (ValidateFail ''deactivated'' None None))
                 else if is_expired row now_chk
                 then (update_by_key (\<lambda>r. r\<lparr>active := False\<rparr>) license d,
                       respond 200 (ValidateFail ''expired'' None None))
                 else if truthy (bound_ip row) \<and> bound_ip row \<noteq> Some incomingIp
                 then (d, respond 200
                            (ValidateFail ''ip_mismatch'' (bound_ip row) (Some incomingIp)))
                 else
                   let d1 = (if \<not> truthy (bound_ip row) \<and> BIND_IP_ON_FIRST_VALIDATE cfg
                             then update_by_key (\<lambda>r. r\<lparr>bound_ip := Some incomingIp\<rparr>) license d
                             else d);
                       d2 = update_by_key
                              (\<lambda>r. r\<lparr>last_seen_ip := Some incomingIp,
                                     last_validated := Some now\<rparr>) license d1
                   in (d2, respond 200
                             (ValidateOk (key row) (tier row) (owner_email row) (expires_at row)
                                (case js_or (bound_ip row) (Some incomingIp) of
                                   Some b \<Rightarrow> b | None \<Rightarrow> incomingIp)))))"

section \<open>The server as a sequence of requests\<close>

text \<open>
  A request together with the clock readings and random values its handler consumes.
  The handlers are synchronous, so the server answers the requests it has received one
  after the other, each on the table the previous one left.
\<close>

datatype event =
    Generate generate_req int int string string
  | Activate activate_req int int string
  | Renew renew_req int
  | Deactivate deactivate_req
  | Info "string option"
  | Validate validate_req int int

fun handle :: "config \<Rightarrow> db \<Rightarrow> event \<Rightarrow> db \<times> response" where
  "handle cfg d (Generate req date_now created hex uuid) =
     generate_handler cfg d req date_now created hex uuid"
| "handle cfg d (Activate req date_now now uuid) = activate_handler cfg d req date_now now uuid"
| "handle cfg d (Renew req date_now) = renew_handler cfg d req date_now"
| "handle cfg d (Deactivate req) = deactivate_handler cfg d req"
| "handle cfg d (Info lic) = info_handler d lic"
| "handle cfg d (Validate req now now_chk) = validate_handler cfg d req now now_chk"

fun run :: "config \<Rightarrow> db \<Rightarrow> event list \<Rightarrow> db \<times> response list" where
  "run cfg d [] = (d, [])"
| "run cfg d (e # es) =
     (case handle cfg d e of
        (d', r) \<Rightarrow> (case run cfg d' es of (d'', rs) \<Rightarrow> (d'', r # rs)))"

text \<open>The event is a validate call that names the key \<open>k\<close>.\<close>

fun validates_key :: "string \<Rightarrow> event \<Rightarrow> bool" where
  "validates_key k (Validate req now now_chk) = (v_license req = Some k)"
| "validates_key k e = False"

text \<open>The event is an activate or renew call that names the key \<open>k\<close>.\<close>

fun reactivates :: "string \<Rightarrow> event \<Rightarrow> bool" where
  "reactivates k (Activate req date_now now uuid) = (a_license req = Some k)"
| "reactivates k (Renew req date_now) = (r_license req = Some k)"
| "reactivates k e = False"

text \<open>
  The constraints of the table: \<^verbatim>\<open>key\<close> is UNIQUE and \<^verbatim>\<open>id\<close> is the primary key. No
  handler stores an empty key: \<^verbatim>\<open>makeKey\<close> builds one around a dash, and /activate
  rejects an empty \<^verbatim>\<open>license\<close> before it inserts.
\<close>

definition wf_db :: "db \<Rightarrow> bool" where
  "wf_db d = (distinct (map key d) \<and> distinct (map row_id d) \<and> list_all (\<lambda>r. key r \<noteq> []) d)"

text \<open>An HTTP status of the 2xx class: the request succeeded.\<close>

definition http_success :: "response \<Rightarrow> bool" where
  "http_success r = (200 \<le> status r \<and> status r < 300)"

section \<open>Example inputs\<close>

text \<open>Concrete configurations, rows and requests, used to instantiate the theorems below.\<close>

definition cfg_bind :: config where
  "cfg_bind = \<lparr>ADMIN_TOKEN = ''secret'', BIND_IP_ON_FIRST_VALIDATE = True\<rparr>"

text \<open>An active, unbound Aegis license that expires at time 1000.\<close>

definition example_row :: license_row where
  "example_row =
     \<lparr>row_id = ''id-1'', key = ''A-00112233445566778899AABB'', tier = ''A'',
      owner_email = Some ''owner@example.com'', created_at = 0, expires_at = Some 1000,
      active = True, bound_ip = None, last_seen_ip = None, last_validated = None\<rparr>"

text \<open>A request source with no forwarding header, seen from the peer address \<open>a\<close>.\<close>

definition peer :: "string \<Rightarrow> ip_source" where
  "peer a = \<lparr>x_client_ip = None, x_forwarded_for = None, req_ip = Some a, remoteAddress = None\<rparr>"

text \<open>A request source that sends the header \<^verbatim>\<open>x-client-ip: h\<close> from the peer 10.0.0.1.\<close>

definition with_client_ip :: "string \<Rightarrow> ip_source" where
  "with_client_ip h =
     \<lparr>x_client_ip = Some h, x_forwarded_for = None, req_ip = Some ''::ffff:10.0.0.1'',
      remoteAddress = None\<rparr>"

definition validate_from :: "ip_source \<Rightarrow> validate_req" where
  "validate_from src = \<lparr>v_license = Some ''A-00112233445566778899AABB'', v_source = src\<rparr>"

text \<open>
  A validate call from another address, then the three administrative operations on the
  key, then another validate call.
\<close>

definition admin_calls :: "event list" where
  "admin_calls =
     [Validate (validate_from (peer ''198.51.100.4'')) 10 11,
      Activate \<lparr>a_token = Some ''secret'', a_license = Some ''A-00112233445566778899AABB'',
                a_days = Some (Some 7), a_owner_email = None\<rparr> 20 21 ''id-2'',
      Renew \<lparr>r_token = Some ''secret'', r_license = Some ''A-00112233445566778899AABB'',
             r_days = None\<rparr> 30,
      Deactivate \<lparr>d_token = Some ''secret'', d_license = Some ''A-00112233445566778899AABB''\<rparr>,
      Validate (validate_from (peer ''198.51.100.4'')) 40 41]"

text \<open>Requests that carry the administrator's token of \<open>cfg_bind\<close>.\<close>

definition admin_generate :: "string option \<Rightarrow> generate_req" where
  "admin_generate t = \<lparr>g_token = Some ''secret'', g_tier = t, g_email = None, g_days = None\<rparr>"

definition admin_activate :: "string \<Rightarrow> string option \<Rightarrow> activate_req" where
  "admin_activate k em =
     \<lparr>a_token = Some ''secret'', a_license = Some k, a_days = Some (Some 7), a_owner_email = em\<rparr>"

definition admin_renew :: "string \<Rightarrow> renew_req" where
  "admin_renew k = \<lparr>r_token = Some ''secret'', r_license = Some k, r_days = None\<rparr>"

text \<open>
  Calls after an expiry: a validate call, a deactivate call on the key, a generate call
  and a validate call from another address.
\<close>

definition later_calls :: "event list" where
  "later_calls =
     [Validate (validate_from (peer ''203.0.113.7'')) 2001 2002,
      Deactivate \<lparr>d_token = Some ''secret'', d_license = Some ''A-00112233445566778899AABB''\<rparr>,
      Generate (admin_generate (Some ''g'')) 2500 2501 ''ffeeddccbbaa998877665544'' ''id-2'',
      Validate (validate_from (peer ''198.51.100.4'')) 3000 3001]"

text \<open>
  Calls after a binding: the bound address validates again, then the administrator renews
  the key.
\<close>

definition owner_calls :: "event list" where
  "owner_calls =
     [Validate (validate_from (peer ''203.0.113.7'')) 20 21,
      Renew (admin_renew ''A-00112233445566778899AABB'') 30]"

section \<open>Facts about the SQL statements\<close>

lemma select_update:
  assumes "\<And>x. key (f x) = key x"
  shows "select_by_key (update_by_key f k d) k' =
         (if k' = k then map_option f (select_by_key d k) else select_by_key d k')"
  using assms by (induction d) (auto simp: select_by_key_def update_by_key_def)

lemma update_absent: "select_by_key d k = None \<Longrightarrow> update_by_key f k d = d"
  by (induction d) (auto simp: select_by_key_def update_by_key_def split: if_splits)

lemma select_append:
  "select_by_key (d @ [x]) k =
     (case select_by_key d k of Some r \<Rightarrow> Some r | None \<Rightarrow> if key x = k then Some x else None)"
  by (induction d) (auto simp: select_by_key_def)

lemma select_key: "select_by_key d k = Some r \<Longrightarrow> key r = k"
  by (induction d) (auto simp: select_by_key_def split: if_splits)

lemma select_list_ex: "select_by_key d k = Some r \<Longrightarrow> list_ex (\<lambda>x. P x \<or> key x = k) d"
  by (induction d) (auto simp: select_by_key_def split: if_splits)

lemma admin_ok: "requireAdmin cfg_bind (Some ''secret'')"
  by (simp add: requireAdmin_def truthy_def cfg_bind_def)

lemma toUpperCase_S: "toUpperCase ''S'' = ''S''" "toUpperCase ''s'' = ''S''"
  "toUpperCase ''g'' = ''G''" "toUpperCase ''a'' = ''A''"
  by code_simp+

text \<open>A header value that is a single NO-BREAK SPACE resolves to the empty address.\<close>

lemma getRequestIP_no_break_space: "getRequestIP (with_client_ip [CHR 0xA0]) = []"
  by (simp add: getRequestIP_def js_or_def truthy_def trim_def is_space_def with_client_ip_def)

lemma fst_run_Cons: "fst (run cfg d (e # es)) = fst (run cfg (fst (handle cfg d e)) es)"
  by (simp split: prod.splits)

lemma snd_run_Cons:
  "snd (run cfg d (e # es)) = snd (handle cfg d e) # snd (run cfg (fst (handle cfg d e)) es)"
  by (simp split: prod.splits)

lemma length_run: "length (snd (run cfg d es)) = length es"
  by (induction es arbitrary: d) (simp_all add: snd_run_Cons del: run.simps(2))

lemma generate_db:
  "fst (generate_handler cfg d req date_now created hex uuid) = d \<or>
   (\<exists>x. fst (generate_handler cfg d req date_now created hex uuid) = d @ [x])"
  by (auto simp: generate_handler_def Let_def insert_row_def split: sum.splits)

lemma info_keeps_db: "fst (info_handler d lic) = d"
  by (auto simp: info_handler_def split: option.splits)

section \<open>Invariants of the table\<close>

text \<open>
  Every handler keeps the keys and the ids of the table distinct and the keys non-empty,
  so every table the server reaches from the empty one has at most one row per key.
\<close>

lemma wf_update:
  assumes "\<And>x. key (f x) = key x" "\<And>x. row_id (f x) = row_id x"
  shows "wf_db (update_by_key f k d) = wf_db d"
proof -
  have "map key (update_by_key f k d) = map key d" "map row_id (update_by_key f k d) = map row_id d"
    using assms by (induction d) (auto simp: update_by_key_def)
  moreover have "list_all (\<lambda>r. key r \<noteq> []) (update_by_key f k d) = list_all (\<lambda>r. key r \<noteq> []) d"
    using assms by (induction d) (auto simp: update_by_key_def)
  ultimately show ?thesis by (simp add: wf_db_def)
qed

lemma wf_insert:
  assumes "wf_db d" "insert_row x d = Inr d'" "key x \<noteq> []"
  shows "wf_db d'"
  using assms
  by (fastforce simp: wf_db_def insert_row_def list_ex_iff split: if_splits)

lemma generate_wf:
  assumes "wf_db d"
  shows "wf_db (fst (generate_handler cfg d req date_now created hex uuid))"
  using assms
  by (auto simp: generate_handler_def Let_def makeKey_def split: sum.splits intro: wf_insert)

lemma activate_wf:
  assumes "wf_db d"
  shows "wf_db (fst (activate_handler cfg d req date_now now uuid))"
  using assms
  by (auto simp: activate_handler_def wf_update truthy_def
           split: sum.splits option.splits if_splits intro: wf_insert)

lemma handle_wf:
  assumes "wf_db d"
  shows "wf_db (fst (handle cfg d e))"
  using assms
proof (cases e)
  case (Generate req date_now created hex uuid)
  then show ?thesis using assms by (simp add: generate_wf)
next
  case (Activate req date_now now uuid)
  then show ?thesis using assms by (simp add: activate_wf)
next
  case (Renew req date_now)
  then show ?thesis using assms
    by (auto simp: renew_handler_def wf_update split: sum.splits option.splits if_splits)
next
  case (Deactivate req)
  then show ?thesis using assms
    by (auto simp: deactivate_handler_def wf_update split: option.splits if_splits)
next
  case (Info lic)
  then show ?thesis using assms by (simp add: info_keeps_db)
next
  case (Validate req now now_chk)
  then show ?thesis using assms
    by (auto simp: validate_handler_def wf_update Let_def split: option.splits if_splits)
qed

lemma run_wf: "wf_db d \<Longrightarrow> wf_db (fst (run cfg d es))"
proof (induction es arbitrary: d)
  case Nil
  then show ?case by simp
next
  case (Cons e es)
  from Cons.IH[OF handle_wf[OF Cons.prems]] show ?case
    by (simp only: fst_run_Cons)
qed

lemma reachable_wf: "wf_db (fst (run cfg [] es))"
  by (rule run_wf) (simp add: wf_db_def)

section \<open>Validation of a deactivated license\<close>

text \<open>
  A deactivated record answers every validate call with \<open>reason=deactivated\<close> and is not
  written; it stays deactivated until an activate or renew call names its key.
\<close>

lemma validate_inactive:
  assumes "map_option active (select_by_key d k) = Some False" "k \<noteq> []" "v_license req = Some k"
  shows "validate_handler cfg d req now now_chk =
           (d, respond 200 (ValidateFail ''deactivated'' None None))"
  using assms by (auto simp: validate_handler_def truthy_def)

lemma handle_keeps_inactive:
  assumes "map_option active (select_by_key d k) = Some False" and "\<not> reactivates k e"
  shows "map_option active (select_by_key (fst (handle cfg d e)) k) = Some False"
proof (cases e)
  case (Generate req date_now created hex uuid)
  then show ?thesis
    using assms generate_db[of cfg d req date_now created hex uuid]
    by (auto simp: select_append split: option.splits)
next
  case (Activate req date_now now uuid)
  then show ?thesis using assms
    by (auto simp: activate_handler_def insert_row_def select_update select_append
           split: option.splits sum.splits if_splits)
next
  case (Renew req date_now)
  then show ?thesis using assms
    by (auto simp: renew_handler_def select_update split: option.splits sum.splits if_splits)
next
  case (Deactivate req)
  then show ?thesis using assms
    by (auto simp: deactivate_handler_def select_update split: option.splits if_splits)
next
  case (Info lic)
  then show ?thesis using assms by (simp add: info_keeps_db)
next
  case (Validate req now now_chk)
  then show ?thesis using assms
    by (auto simp: validate_handler_def select_update Let_def split: option.splits if_splits)
qed

lemma run_inactive_answers:
  assumes "map_option active (select_by_key d k) = Some False" and "k \<noteq> []"
    and "list_all (\<lambda>e. \<not> reactivates k e) es"
    and "i < length es" and "validates_key k (es ! i)"
  shows "snd (run cfg d es) ! i = respond 200 (ValidateFail ''deactivated'' None None)"
  using assms(1,3,4,5)
proof (induction es arbitrary: d i)
  case Nil
  then show ?case by simp
next
  case (Cons e es)
  show ?case
  proof (cases i)
    case 0
    with Cons.prems(4) obtain req now now_chk
      where e: "e = Validate req now now_chk" and l: "v_license req = Some k"
      by (cases e) auto
    show ?thesis
      using 0 e validate_inactive[OF Cons.prems(1) assms(2) l]
      by (simp add: snd_run_Cons del: run.simps(2))
  next
    case (Suc j)
    have inv: "map_option active (select_by_key (fst (handle cfg d e)) k) = Some False"
      using handle_keeps_inactive[OF Cons.prems(1)] Cons.prems(2) by simp
    have "snd (run cfg (fst (handle cfg d e)) es) ! j =
            respond 200 (ValidateFail ''deactivated'' None None)"
      using Cons.IH[OF inv, of j] Cons.prems(2,3,4) Suc by simp
    then show ?thesis using Suc by (simp add: snd_run_Cons del: run.simps(2))
  qed
qed

section \<open>Expiry\<close>

text \<open>
  C2. A stored record that is active and whose \<open>expires_at\<close> lies before the time of the
  check: the validate call answers \<open>valid=false, reason=expired\<close> with status 200 and
  issues the one statement \<^verbatim>\<open>UPDATE licenses SET active = 0 WHERE key = ?\<close>. The record
  under the key becomes the old record with \<open>active\<close> false, every other field as it was,
  and the records under all other keys are as before. After that, in every sequence of
  requests in which no activate or renew call names the key, every validate call on the
  key, from any address and at any time, answers \<open>reason=deactivated\<close>.
\<close>

theorem validate_expired_once:
  assumes "select_by_key d k = Some r" and "active r"
    and "expires_at r = Some e" and "e < now_chk"
    and "k \<noteq> []" and "v_license req = Some k"
    and "validate_handler cfg d req now now_chk = (d', resp)"
  shows "resp = respond 200 (ValidateFail ''expired'' None None)
       \<and> d' = update_by_key (\<lambda>x. x\<lparr>active := False\<rparr>) k d
       \<and> select_by_key d' k = Some (r\<lparr>active := False\<rparr>)
       \<and> (\<forall>k'. k' \<noteq> k \<longrightarrow> select_by_key d' k' = select_by_key d k')
       \<and> (\<forall>es i. list_all (\<lambda>e. \<not> reactivates k e) es \<and> i < length es
                    \<and> validates_key k (es ! i) \<longrightarrow>
             snd (run cfg d' es) ! i = respond 200 (ValidateFail ''deactivated'' None None))"
proof -
  let ?d' = "update_by_key (\<lambda>x. x\<lparr>active := False\<rparr>) k d"
  have "validate_handler cfg d req now now_chk =
          (?d', respond 200 (ValidateFail ''expired'' None None))"
    using assms(1-6) by (simp add: validate_handler_def truthy_def is_expired_def)
  with assms(7) have step: "d' = ?d'" "resp = respond 200 (ValidateFail ''expired'' None None)"
    by simp_all
  have sel: "select_by_key ?d' k = Some (r\<lparr>active := False\<rparr>)"
    using assms(1) by (simp add: select_update)
  have other: "\<forall>k'. k' \<noteq> k \<longrightarrow> select_by_key ?d' k' = select_by_key d k'"
    by (simp add: select_update)
  have off: "map_option active (select_by_key ?d' k) = Some False"
    using sel by simp
  have later: "\<forall>es i. list_all (\<lambda>e. \<not> reactivates k e) es \<and> i < length es
                    \<and> validates_key k (es ! i) \<longrightarrow>
      snd (run cfg ?d' es) ! i = respond 200 (ValidateFail ''deactivated'' None None)"
    using run_inactive_answers[OF off assms(5)] by blast
  show ?thesis using step sel other later by simp
qed

theorem validate_expired_once_witness:
  "select_by_key [example_row] ''A-00112233445566778899AABB'' = Some example_row
   \<and> active example_row \<and> expires_at example_row = Some 1000 \<and> (1000::int) < 2000
   \<and> validate_handler cfg_bind [example_row] (validate_from (peer ''203.0.113.7'')) 1999 2000 =
        ([example_row\<lparr>active := False\<rparr>], respond 200 (ValidateFail ''expired'' None None))
   \<and> list_all (\<lambda>e. \<not> reactivates ''A-00112233445566778899AABB'' e) later_calls
   \<and> validates_key ''A-00112233445566778899AABB'' (later_calls ! 0)
   \<and> validates_key ''A-00112233445566778899AABB'' (later_calls ! 3)
   \<and> snd (run cfg_bind [example_row\<lparr>active := False\<rparr>] later_calls) ! 0 =
        respond 200 (ValidateFail ''deactivated'' None None)
   \<and> snd (run cfg_bind [example_row\<lparr>active := False\<rparr>] later_calls) ! 3 =
        respond 200 (ValidateFail ''deactivated'' None None)"
proof -
  let ?k = "''A-00112233445566778899AABB''"
  have sel: "select_by_key [example_row] ?k = Some example_row"
    by (simp add: select_by_key_def example_row_def)
  have act: "active example_row" and exp: "expires_at example_row = Some 1000"
    by (simp_all add: example_row_def)
  have lt: "(1000::int) < 2000" and ne: "?k \<noteq> []"
    by simp_all
  have lic: "v_license (validate_from (peer ''203.0.113.7'')) = Some ?k"
    by (simp add: validate_from_def)
  have step: "validate_handler cfg_bind [example_row] (validate_from (peer ''203.0.113.7'')) 1999 2000 =
        ([example_row\<lparr>active := False\<rparr>], respond 200 (ValidateFail ''expired'' None None))"
    by (simp add: validate_handler_def truthy_def select_by_key_def update_by_key_def
          is_expired_def validate_from_def example_row_def)
  have quiet: "list_all (\<lambda>e. \<not> reactivates ?k e) later_calls"
    by (simp add: later_calls_def)
  have len: "0 < length later_calls" "3 < length later_calls"
    by (simp_all add: later_calls_def)
  have v0: "validates_key ?k (later_calls ! 0)" and v3: "validates_key ?k (later_calls ! 3)"
    by (simp_all add: later_calls_def validate_from_def)
  note later = validate_expired_once[OF sel act exp lt ne lic step,
                 THEN conjunct2, THEN conjunct2, THEN conjunct2, THEN conjunct2, rule_format]
  have r0: "snd (run cfg_bind [example_row\<lparr>active := False\<rparr>] later_calls) ! 0 =
        respond 200 (ValidateFail ''deactivated'' None None)"
    using later[of later_calls 0] quiet len(1) v0 by blast
  have r3: "snd (run cfg_bind [example_row\<lparr>active := False\<rparr>] later_calls) ! 3 =
        respond 200 (ValidateFail ''deactivated'' None None)"
    using later[of later_calls 3] quiet len(2) v3 by blast
  from sel act exp lt step quiet v0 v3 r0 r3 show ?thesis
    by (intro conjI)
qed

text \<open>
  C5, as the code has it. The test of line 202 is
  \<^verbatim>\<open>new Date(row.expires_at) < new Date()\<close>, a strict comparison. For a stored active
  record with expiry \<open>e\<close>: a validate call whose check time is later than \<open>e\<close> answers
  \<open>valid=false, reason=expired\<close> and deactivates the record; a call whose check time is
  \<open>e\<close> itself or earlier is not answered \<open>expired\<close>, and the record stays active.
\<close>

theorem validate_expired_strictly_after:
  assumes "select_by_key d k = Some r" and "active r" and "expires_at r = Some e"
    and "k \<noteq> []" and "v_license req = Some k"
    and "validate_handler cfg d req now now_chk = (d', resp)"
  shows "(e < now_chk \<longrightarrow>
            resp = respond 200 (ValidateFail ''expired'' None None)
          \<and> select_by_key d' k = Some (r\<lparr>active := False\<rparr>))
       \<and> (now_chk \<le> e \<longrightarrow>
            body resp \<noteq> ValidateFail ''expired'' None None
          \<and> map_option active (select_by_key d' k) = Some True)"
proof (cases "e < now_chk")
  case True
  then have "validate_handler cfg d req now now_chk =
      (update_by_key (\<lambda>x. x\<lparr>active := False\<rparr>) k d,
       respond 200 (ValidateFail ''expired'' None None))"
    using assms(1-5) by (simp add: validate_handler_def truthy_def is_expired_def)
  with assms(1,6) True show ?thesis
    by (auto simp: select_update)
next
  case False
  then have ne: "\<not> is_expired r now_chk"
    using assms(3) by (simp add: is_expired_def)
  have "body resp \<noteq> ValidateFail ''expired'' None None
      \<and> map_option active (select_by_key d' k) = Some True"
    using assms(1,2,4,5,6) ne
    by (auto simp: validate_handler_def truthy_def Let_def respond_def select_update
             split: if_splits)
  with False show ?thesis by simp
qed

theorem validate_expired_strictly_after_witness:
  "select_by_key [example_row] ''A-00112233445566778899AABB'' = Some example_row
   \<and> active example_row \<and> expires_at example_row = Some 1000
   \<and> validate_handler cfg_bind [example_row] (validate_from (peer ''203.0.113.7'')) 1001 1001 =
       ([example_row\<lparr>active := False\<rparr>], respond 200 (ValidateFail ''expired'' None None))
   \<and> body (snd (validate_handler cfg_bind [example_row] (validate_from (peer ''203.0.113.7''))
                 999 999)) \<noteq> ValidateFail ''expired'' None None"
proof -
  let ?req = "validate_from (peer ''203.0.113.7'')"
  have sel: "select_by_key [example_row] ''A-00112233445566778899AABB'' = Some example_row"
    by (simp add: select_by_key_def example_row_def)
  have act: "active example_row" and exp: "expires_at example_row = Some 1000"
    by (simp_all add: example_row_def)
  have ne: "''A-00112233445566778899AABB'' \<noteq> []" by simp
  have lic: "v_license ?req = Some ''A-00112233445566778899AABB''"
    by (simp add: validate_from_def)
  have late: "validate_handler cfg_bind [example_row] ?req 1001 1001 =
       ([example_row\<lparr>active := False\<rparr>], respond 200 (ValidateFail ''expired'' None None))"
    by (simp add: validate_handler_def truthy_def select_by_key_def update_by_key_def
          is_expired_def validate_from_def example_row_def)
  obtain d' resp where early: "validate_handler cfg_bind [example_row] ?req 999 999 = (d', resp)"
    by (cases "validate_handler cfg_bind [example_row] ?req 999 999")
  from validate_expired_strictly_after[OF sel act exp ne lic early]
  have "body resp \<noteq> ValidateFail ''expired'' None None"
    by simp
  with early have e: "body (snd (validate_handler cfg_bind [example_row] ?req 999 999))
      \<noteq> ValidateFail ''expired'' None None"
    by simp
  from validate_expired_strictly_after[OF sel act exp ne lic late] sel act exp late e
  show ?thesis by (intro conjI)
qed

text \<open>
  At the expiry instant itself (check time 1000, \<open>expires_at\<close> 1000) the license is still
  accepted: the call answers \<open>valid=true\<close> and binds the address.
\<close>

theorem validate_at_expiry_instant_counterexample:
  "expires_at example_row = Some 1000
   \<and> validate_handler cfg_bind [example_row] (validate_from (peer ''203.0.113.7'')) 1000 1000 =
       ([example_row\<lparr>bound_ip := Some ''203.0.113.7'', last_seen_ip := Some ''203.0.113.7'',
                     last_validated := Some 1000\<rparr>],
        respond 200 (ValidateOk ''A-00112233445566778899AABB'' ''A'' (Some ''owner@example.com'')
                       (Some 1000) ''203.0.113.7''))"
  by (simp add: validate_handler_def getRequestIP_def js_or_def truthy_def
        select_by_key_def update_by_key_def is_expired_def Let_def
        cfg_bind_def example_row_def peer_def validate_from_def)

section \<open>The binding is permanent\<close>

lemma bound_append:
  "map_option bound_ip (select_by_key d k) = Some b \<Longrightarrow>
   map_option bound_ip (select_by_key (d @ [x]) k) = Some b"
  by (auto simp: select_append split: option.splits)

lemma generate_keeps_bound:
  assumes "map_option bound_ip (select_by_key d k) = Some b"
  shows "map_option bound_ip
           (select_by_key (fst (generate_handler cfg d req date_now created hex uuid)) k) = Some b"
  using generate_db[of cfg d req date_now created hex uuid] assms bound_append by auto

lemma activate_keeps_bound:
  assumes "map_option bound_ip (select_by_key d k) = Some b"
  shows "map_option bound_ip
           (select_by_key (fst (activate_handler cfg d req date_now now uuid)) k) = Some b"
  using assms
  by (auto simp: activate_handler_def insert_row_def select_update select_append
           split: option.splits sum.splits if_splits)

lemma renew_keeps_bound:
  assumes "map_option bound_ip (select_by_key d k) = Some b"
  shows "map_option bound_ip (select_by_key (fst (renew_handler cfg d req date_now)) k) = Some b"
  using assms
  by (auto simp: renew_handler_def select_update split: option.splits sum.splits if_splits)

lemma deactivate_keeps_bound:
  assumes "map_option bound_ip (select_by_key d k) = Some b"
  shows "map_option bound_ip (select_by_key (fst (deactivate_handler cfg d req)) k) = Some b"
  using assms
  by (auto simp: deactivate_handler_def select_update split: option.splits if_splits)

lemma validate_keeps_bound:
  assumes "map_option bound_ip (select_by_key d k) = Some (Some ip)" and "ip \<noteq> []"
  shows "map_option bound_ip
           (select_by_key (fst (validate_handler cfg d req now now_chk)) k) = Some (Some ip)"
  using assms
  by (auto simp: validate_handler_def Let_def select_update truthy_def
           split: option.splits if_splits)

lemma handle_keeps_bound:
  assumes "map_option bound_ip (select_by_key d k) = Some (Some ip)" and "ip \<noteq> []"
  shows "map_option bound_ip (select_by_key (fst (handle cfg d e)) k) = Some (Some ip)"
  using assms
  by (cases e)
     (simp_all add: generate_keeps_bound activate_keeps_bound renew_keeps_bound
        deactivate_keeps_bound info_keeps_db validate_keeps_bound)

lemma run_keeps_bound:
  assumes "map_option bound_ip (select_by_key d k) = Some (Some ip)" and "ip \<noteq> []"
  shows "map_option bound_ip (select_by_key (fst (run cfg d es)) k) = Some (Some ip)"
  using assms(1)
proof (induction es arbitrary: d)
  case Nil
  then show ?case by simp
next
  case (Cons e es)
  have "map_option bound_ip (select_by_key (fst (handle cfg d e)) k) = Some (Some ip)"
    using handle_keeps_bound[OF Cons.prems assms(2)] .
  from Cons.IH[OF this] show ?case
    by (simp only: fst_run_Cons)
qed

text \<open>
  C4. A record whose \<open>bound_ip\<close> is set to a non-empty address keeps that address through
  every sequence of requests the server can handle (generate, activate, renew,
  deactivate, info and validate, with any arguments, in any order): after the sequence
  the key still has a record, and its \<open>bound_ip\<close> is the same address.
\<close>

theorem bound_ip_never_changes:
  assumes "select_by_key d k = Some r" and "bound_ip r = Some ip" and "ip \<noteq> []"
  shows "\<exists>r'. select_by_key (fst (run cfg d es)) k = Some r' \<and> bound_ip r' = Some ip"
proof -
  have "map_option bound_ip (select_by_key d k) = Some (Some ip)"
    using assms(1,2) by simp
  from run_keeps_bound[OF this assms(3)] show ?thesis
    by auto
qed

theorem bound_ip_never_changes_witness:
  "select_by_key [example_row\<lparr>bound_ip := Some ''203.0.113.7''\<rparr>] ''A-00112233445566778899AABB''
     = Some (example_row\<lparr>bound_ip := Some ''203.0.113.7''\<rparr>)
   \<and> bound_ip (example_row\<lparr>bound_ip := Some ''203.0.113.7''\<rparr>) = Some ''203.0.113.7''
   \<and> (\<exists>r'. select_by_key
               (fst (run cfg_bind [example_row\<lparr>bound_ip := Some ''203.0.113.7''\<rparr>] admin_calls))
               ''A-00112233445566778899AABB'' = Some r'
           \<and> bound_ip r' = Some ''203.0.113.7'')"
proof -
  have sel: "select_by_key [example_row\<lparr>bound_ip := Some ''203.0.113.7''\<rparr>]
               ''A-00112233445566778899AABB'' = Some (example_row\<lparr>bound_ip := Some ''203.0.113.7''\<rparr>)"
    by (simp add: select_by_key_def example_row_def)
  have b: "bound_ip (example_row\<lparr>bound_ip := Some ''203.0.113.7''\<rparr>) = Some ''203.0.113.7''"
    by simp
  have ne: "''203.0.113.7'' \<noteq> []" by simp
  from bound_ip_never_changes[OF sel b ne, of cfg_bind admin_calls] sel b
  show ?thesis by simp
qed

section \<open>Binding on the first validation\<close>

text \<open>
  A record bound to a non-empty address, active and unexpired at the time of the check,
  rejects a validate call from any other address and is not written.
\<close>

lemma bound_rejects_foreign:
  assumes "select_by_key d k = Some r" and "active r" and "\<not> is_expired r now_chk"
    and "bound_ip r = Some ip" and "ip \<noteq> []"
    and "k \<noteq> []" and "v_license req = Some k"
    and "getRequestIP (v_source req) \<noteq> ip"
  shows "validate_handler cfg d req now now_chk =
           (d, respond 200
                 (ValidateFail ''ip_mismatch'' (Some ip) (Some (getRequestIP (v_source req)))))"
  using assms by (simp add: validate_handler_def truthy_def Let_def)

text \<open>
  C1, as the code has it. A stored record that is active, not expired at the time of the
  check and unbound (\<open>bound_ip\<close> NULL or empty), with the binding flag on, validated from
  a request whose resolved address \<open>ip\<close> is not the empty string: the call answers
  \<open>valid=true\<close> with \<open>bound_ip = ip\<close>, the record under the key becomes the old record
  with \<open>bound_ip = ip\<close>, \<open>last_seen_ip = ip\<close> and \<open>last_validated = now\<close>, and the records
  under other keys are as before. After that, whatever sequence of requests the server
  has handled in between, the record is still bound to \<open>ip\<close>, and every validate call on
  the key whose resolved address differs from \<open>ip\<close>, made while the record is active
  and unexpired, answers \<open>valid=false, reason=ip_mismatch\<close> with the bound and the
  incoming address and leaves the table as it is.
\<close>

theorem validate_binds_first_address:
  assumes "select_by_key d k = Some r" and "active r" and "\<not> is_expired r now_chk"
    and "\<not> truthy (bound_ip r)" and "BIND_IP_ON_FIRST_VALIDATE cfg"
    and "k \<noteq> []" and "v_license req = Some k"
    and "getRequestIP (v_source req) = ip" and "ip \<noteq> []"
    and "validate_handler cfg d req now now_chk = (d', resp)"
  shows "resp = respond 200 (ValidateOk (key r) (tier r) (owner_email r) (expires_at r) ip)
       \<and> select_by_key d' k =
           Some (r\<lparr>bound_ip := Some ip, last_seen_ip := Some ip, last_validated := Some now\<rparr>)
       \<and> (\<forall>k'. k' \<noteq> k \<longrightarrow> select_by_key d' k' = select_by_key d k')
       \<and> (\<forall>es req2 now2 now_chk2 r2.
             select_by_key (fst (run cfg d' es)) k = Some r2 \<and> active r2 \<and>
             \<not> is_expired r2 now_chk2 \<and>
             v_license req2 = Some k \<and> getRequestIP (v_source req2) \<noteq> ip \<longrightarrow>
             bound_ip r2 = Some ip \<and>
             validate_handler cfg (fst (run cfg d' es)) req2 now2 now_chk2 =
               (fst (run cfg d' es),
                respond 200
                  (ValidateFail ''ip_mismatch'' (Some ip)
                     (Some (getRequestIP (v_source req2))))))"
proof -
  let ?bind = "\<lambda>x::license_row. x\<lparr>bound_ip := Some ip\<rparr>"
  let ?seen = "\<lambda>x::license_row. x\<lparr>last_seen_ip := Some ip, last_validated := Some now\<rparr>"
  let ?d' = "update_by_key ?seen k (update_by_key ?bind k d)"
  let ?r' = "r\<lparr>bound_ip := Some ip, last_seen_ip := Some ip, last_validated := Some now\<rparr>"
  have "validate_handler cfg d req now now_chk =
          (?d', respond 200 (ValidateOk (key r) (tier r) (owner_email r) (expires_at r) ip))"
    using assms(1-9) by (simp add: validate_handler_def truthy_def js_or_def Let_def)
  with assms(10) have step: "d' = ?d'"
    "resp = respond 200 (ValidateOk (key r) (tier r) (owner_email r) (expires_at r) ip)"
    by simp_all
  have sel: "select_by_key ?d' k = Some ?r'"
    using assms(1) by (simp add: select_update)
  have other: "\<forall>k'. k' \<noteq> k \<longrightarrow> select_by_key ?d' k' = select_by_key d k'"
    by (simp add: select_update)
  have bound: "map_option bound_ip (select_by_key ?d' k) = Some (Some ip)"
    using sel by simp
  have later: "bound_ip r2 = Some ip \<and>
      validate_handler cfg (fst (run cfg ?d' es)) req2 now2 now_chk2 =
        (fst (run cfg ?d' es),
         respond 200 (ValidateFail ''ip_mismatch'' (Some ip) (Some (getRequestIP (v_source req2)))))"
    if r2: "select_by_key (fst (run cfg ?d' es)) k = Some r2" and a2: "active r2"
      and e2: "\<not> is_expired r2 now_chk2"
      and l2: "v_license req2 = Some k" and i2: "getRequestIP (v_source req2) \<noteq> ip"
    for es req2 now2 now_chk2 r2
  proof -
    have b2: "bound_ip r2 = Some ip"
      using run_keeps_bound[OF bound assms(9), of cfg es] r2 by simp
    from bound_rejects_foreign[OF r2 a2 e2 b2 assms(9) assms(6) l2 i2] b2
    show ?thesis by simp
  qed
  show ?thesis using step sel other later by blast
qed

theorem validate_binds_first_address_witness:
  "select_by_key [example_row] ''A-00112233445566778899AABB'' = Some example_row
   \<and> active example_row \<and> \<not> is_expired example_row 11 \<and> \<not> truthy (bound_ip example_row)
   \<and> BIND_IP_ON_FIRST_VALIDATE cfg_bind
   \<and> getRequestIP (with_client_ip '' 203.0.113.7, 10.1.1.1'') = ''203.0.113.7''
   \<and> validate_handler cfg_bind [example_row]
        (validate_from (with_client_ip '' 203.0.113.7, 10.1.1.1'')) 10 11 =
       ([example_row\<lparr>bound_ip := Some ''203.0.113.7'', last_seen_ip := Some ''203.0.113.7'',
                     last_validated := Some 10\<rparr>],
        respond 200 (ValidateOk ''A-00112233445566778899AABB'' ''A'' (Some ''owner@example.com'')
                       (Some 1000) ''203.0.113.7''))
   \<and> fst (run cfg_bind
             [example_row\<lparr>bound_ip := Some ''203.0.113.7'', last_seen_ip := Some ''203.0.113.7'',
                          last_validated := Some 10\<rparr>] owner_calls) =
       [example_row\<lparr>bound_ip := Some ''203.0.113.7'', last_seen_ip := Some ''203.0.113.7'',
                     last_validated := Some 20, expires_at := Some 2592000030\<rparr>]
   \<and> validate_handler cfg_bind
        [example_row\<lparr>bound_ip := Some ''203.0.113.7'', last_seen_ip := Some ''203.0.113.7'',
                     last_validated := Some 20, expires_at := Some 2592000030\<rparr>]
        (validate_from (peer ''::ffff:198.51.100.4'')) 5000 5001 =
       ([example_row\<lparr>bound_ip := Some ''203.0.113.7'', last_seen_ip := Some ''203.0.113.7'',
                     last_validated := Some 20, expires_at := Some 2592000030\<rparr>],
        respond 200 (ValidateFail ''ip_mismatch'' (Some ''203.0.113.7'') (Some ''198.51.100.4'')))"
proof -
  let ?k = "''A-00112233445566778899AABB''"
  let ?req = "validate_from (with_client_ip '' 203.0.113.7, 10.1.1.1'')"
  let ?req2 = "validate_from (peer ''::ffff:198.51.100.4'')"
  let ?r' = "example_row\<lparr>bound_ip := Some ''203.0.113.7'', last_seen_ip := Some ''203.0.113.7'',
                     last_validated := Some 10\<rparr>"
  let ?r2 = "example_row\<lparr>bound_ip := Some ''203.0.113.7'', last_seen_ip := Some ''203.0.113.7'',
                     last_validated := Some 20, expires_at := Some 2592000030\<rparr>"
  have sel: "select_by_key [example_row] ?k = Some example_row"
    by (simp add: select_by_key_def example_row_def)
  have act: "active example_row" and nexp: "\<not> is_expired example_row 11"
    and unb: "\<not> truthy (bound_ip example_row)" and flag: "BIND_IP_ON_FIRST_VALIDATE cfg_bind"
    by (simp_all add: example_row_def is_expired_def truthy_def cfg_bind_def)
  have ne: "?k \<noteq> []" and ipne: "''203.0.113.7'' \<noteq> []"
    by simp_all
  have lic: "v_license ?req = Some ?k" and lic2: "v_license ?req2 = Some ?k"
    by (simp_all add: validate_from_def)
  have ip: "getRequestIP (v_source ?req) = ''203.0.113.7''"
    by (simp add: getRequestIP_def js_or_def truthy_def trim_def is_space_def
          with_client_ip_def validate_from_def)
  have ip': "getRequestIP (with_client_ip '' 203.0.113.7, 10.1.1.1'') = ''203.0.113.7''"
    using ip by (simp add: validate_from_def)
  have ip2: "getRequestIP (v_source ?req2) = ''198.51.100.4''"
    by (simp add: getRequestIP_def js_or_def truthy_def peer_def validate_from_def)
  have differ: "getRequestIP (v_source ?req2) \<noteq> ''203.0.113.7''"
    by (simp add: ip2)
  have step: "validate_handler cfg_bind [example_row] ?req 10 11 =
      ([?r'], respond 200 (ValidateOk ?k ''A'' (Some ''owner@example.com'') (Some 1000)
                             ''203.0.113.7''))"
    by (simp add: validate_handler_def getRequestIP_def js_or_def truthy_def trim_def
        is_space_def select_by_key_def update_by_key_def is_expired_def Let_def
        cfg_bind_def example_row_def with_client_ip_def validate_from_def)
  have v1: "validate_handler cfg_bind [?r'] (validate_from (peer ''203.0.113.7'')) 20 21 =
      ([example_row\<lparr>bound_ip := Some ''203.0.113.7'', last_seen_ip := Some ''203.0.113.7'',
                     last_validated := Some 20\<rparr>],
       respond 200 (ValidateOk ?k ''A'' (Some ''owner@example.com'') (Some 1000)
                      ''203.0.113.7''))"
    by (simp add: validate_handler_def getRequestIP_def js_or_def truthy_def
        select_by_key_def update_by_key_def is_expired_def Let_def
        cfg_bind_def example_row_def peer_def validate_from_def)
  have v2: "renew_handler cfg_bind
       [example_row\<lparr>bound_ip := Some ''203.0.113.7'', last_seen_ip := Some ''203.0.113.7'',
                     last_validated := Some 20\<rparr>] (admin_renew ?k) 30 =
      ([?r2], respond 200 (RenewOk ?k 2592000030))"
    by (simp add: renew_handler_def requireAdmin_def truthy_def days_or_default_def
        expiry_time_def toISOString_def select_by_key_def update_by_key_def
        cfg_bind_def example_row_def admin_renew_def)
  have later: "fst (run cfg_bind [?r'] owner_calls) = [?r2]"
    by (simp add: owner_calls_def v1 v2)
  have sel2: "select_by_key (fst (run cfg_bind [?r'] owner_calls)) ?k = Some ?r2"
    unfolding later by (simp add: select_by_key_def example_row_def)
  have act2: "active ?r2" and nexp2: "\<not> is_expired ?r2 5001"
    by (simp_all add: example_row_def is_expired_def)
  have foreign: "validate_handler cfg_bind [?r2] ?req2 5000 5001 =
       ([?r2], respond 200 (ValidateFail ''ip_mismatch'' (Some ''203.0.113.7'') (Some ''198.51.100.4'')))"
    using validate_binds_first_address[OF sel act nexp unb flag ne lic ip ipne step,
            THEN conjunct2, THEN conjunct2, THEN conjunct2, rule_format,
            of owner_calls ?r2 5001 ?req2 5000]
      sel2 act2 nexp2 lic2 differ
    by (simp add: later ip2)
  from sel act nexp unb flag ip' step later foreign show ?thesis
    by (intro conjI)
qed

text \<open>
  Two inputs outside these conditions. The header \<^verbatim>\<open>x-client-ip: ,203.0.113.7\<close> resolves
  to the empty string (the text before the first comma). The first call then stores the
  empty string in \<open>bound_ip\<close>, which the test \<^verbatim>\<open>if (row.bound_ip)\<close> reads as unbound: the
  next call, from another address, is answered \<open>valid=true\<close> and rewrites \<open>bound_ip\<close>.
  And the expiry test comes before the address test: once the record bound to
  203.0.113.7 has expired, a call from another address is answered \<open>expired\<close>, not
  \<open>ip_mismatch\<close>, and the record is deactivated.
\<close>

theorem bind_empty_address_counterexample:
  "getRequestIP (with_client_ip '',203.0.113.7'') = []
   \<and> validate_handler cfg_bind [example_row] (validate_from (with_client_ip '',203.0.113.7'')) 10 11 =
       ([example_row\<lparr>bound_ip := Some [], last_seen_ip := Some [], last_validated := Some 10\<rparr>],
        respond 200 (ValidateOk ''A-00112233445566778899AABB'' ''A'' (Some ''owner@example.com'')
                       (Some 1000) []))
   \<and> validate_handler cfg_bind
        [example_row\<lparr>bound_ip := Some [], last_seen_ip := Some [], last_validated := Some 10\<rparr>]
        (validate_from (peer ''198.51.100.4'')) 20 21 =
       ([example_row\<lparr>bound_ip := Some ''198.51.100.4'', last_seen_ip := Some ''198.51.100.4'',
                     last_validated := Some 20\<rparr>],
        respond 200 (ValidateOk ''A-00112233445566778899AABB'' ''A'' (Some ''owner@example.com'')
                       (Some 1000) ''198.51.100.4''))
   \<and> validate_handler cfg_bind
        [example_row\<lparr>bound_ip := Some ''203.0.113.7'', last_seen_ip := Some ''203.0.113.7'',
                     last_validated := Some 10\<rparr>]
        (validate_from (peer ''198.51.100.4'')) 2000 2001 =
       ([example_row\<lparr>bound_ip := Some ''203.0.113.7'', last_seen_ip := Some ''203.0.113.7'',
                     last_validated := Some 10, active := False\<rparr>],
        respond 200 (ValidateFail ''expired'' None None))"
  by (simp add: validate_handler_def getRequestIP_def js_or_def truthy_def trim_def
        select_by_key_def update_by_key_def is_expired_def Let_def
        cfg_bind_def example_row_def peer_def with_client_ip_def validate_from_def)

section \<open>The decision outcomes of validate\<close>

text \<open>
  C6, as the code has it. For a validate call that names a key: an unknown key is
  answered with the decision object \<open>valid=false, reason=not_found\<close> under HTTP status
  404, and the table is unchanged. Every answer with \<open>valid=false\<close> is either that one,
  or carries one of the reasons \<open>deactivated\<close>, \<open>expired\<close>, \<open>ip_mismatch\<close> under status 200
  for a key that is stored. No other status than 200 and 404 occurs.
\<close>

theorem validate_decisions:
  assumes "v_license req = Some k" and "k \<noteq> []"
    and "validate_handler cfg d req now now_chk = (d', resp)"
  shows "(select_by_key d k = None \<longrightarrow>
            d' = d \<and> resp = respond 404 (ValidateFail ''not_found'' None None))
       \<and> (\<forall>reason b i. body resp = ValidateFail reason b i \<longrightarrow>
             (reason = ''not_found'' \<and> status resp = 404 \<and> select_by_key d k = None)
           \<or> (List.member [''deactivated'', ''expired'', ''ip_mismatch''] reason
                \<and> status resp = 200 \<and> select_by_key d k \<noteq> None))
       \<and> (List.member [200, 404] (status resp))"
  using assms
  by (auto simp: validate_handler_def truthy_def Let_def respond_def
           split: option.splits if_splits)

theorem validate_decisions_witness:
  "select_by_key [example_row\<lparr>active := False\<rparr>] ''A-00112233445566778899AABB'' \<noteq> None
   \<and> validate_handler cfg_bind [example_row\<lparr>active := False\<rparr>]
        (validate_from (peer ''203.0.113.7'')) 10 11 =
       ([example_row\<lparr>active := False\<rparr>], respond 200 (ValidateFail ''deactivated'' None None))
   \<and> status (respond 200 (ValidateFail ''deactivated'' None None)) = 200
   \<and> select_by_key [] ''A-00112233445566778899AABB'' = None
   \<and> validate_handler cfg_bind [] (validate_from (peer ''203.0.113.7'')) 10 11 =
       ([], respond 404 (ValidateFail ''not_found'' None None))"
proof -
  let ?req = "validate_from (peer ''203.0.113.7'')"
  let ?d = "[example_row\<lparr>active := False\<rparr>]"
  have ne: "''A-00112233445566778899AABB'' \<noteq> []" by simp
  have lic: "v_license ?req = Some ''A-00112233445566778899AABB''"
    by (simp add: validate_from_def)
  have sel: "select_by_key ?d ''A-00112233445566778899AABB'' \<noteq> None"
    by (simp add: select_by_key_def example_row_def)
  have none: "select_by_key [] ''A-00112233445566778899AABB'' = None"
    by (simp add: select_by_key_def)
  have dead: "validate_handler cfg_bind ?d ?req 10 11 =
       (?d, respond 200 (ValidateFail ''deactivated'' None None))"
    by (simp add: validate_handler_def truthy_def select_by_key_def
          validate_from_def example_row_def)
  have st: "status (respond 200 (ValidateFail ''deactivated'' None None)) = 200"
    using validate_decisions[OF lic ne dead] sel
    by (auto simp: respond_def)
  obtain d' resp where nf: "validate_handler cfg_bind [] ?req 10 11 = (d', resp)"
    by (cases "validate_handler cfg_bind [] ?req 10 11")
  from validate_decisions[OF lic ne nf] none
  have "d' = [] \<and> resp = respond 404 (ValidateFail ''not_found'' None None)"
    by blast
  with nf have "validate_handler cfg_bind [] ?req 10 11 =
       ([], respond 404 (ValidateFail ''not_found'' None None))"
    by simp
  with sel dead st none show ?thesis by (intro conjI)
qed

text \<open>
  The answer for an unknown key is sent with \<^verbatim>\<open>res.status(404)\<close>: it is not a response of
  the 2xx class.
\<close>

theorem validate_unknown_key_counterexample:
  "validate_handler cfg_bind [] (validate_from (peer ''203.0.113.7'')) 10 11 =
     ([], respond 404 (ValidateFail ''not_found'' None None))
   \<and> \<not> http_success (snd (validate_handler cfg_bind [] (validate_from (peer ''203.0.113.7'')) 10 11))"
  by (simp add: validate_handler_def truthy_def select_by_key_def respond_def http_success_def
        validate_from_def Let_def)

section \<open>Generating keys\<close>

text \<open>
  C7, as the code has it. The handler draws one key and runs one \<^verbatim>\<open>INSERT\<close>. When the
  drawn key is already stored, the statement throws, the \<^verbatim>\<open>catch\<close> answers status 500
  \<open>server_error\<close> at once, and the table is unchanged; no second key is drawn.
\<close>

theorem generate_collision_not_retried:
  assumes "requireAdmin cfg (g_token req)"
    and "List.member [''S'', ''G'', ''A''] (tier_of_query (g_tier req))"
    and "select_by_key d (makeKey (tier_of_query (g_tier req)) hex) = Some r"
  shows "generate_handler cfg d req date_now created hex uuid =
           (d, respond 500 (ErrorBody ''server_error''))"
  using assms select_list_ex[OF assms(3), of "\<lambda>x. row_id x = uuid"]
  by (auto simp: generate_handler_def Let_def insert_row_def split: sum.splits)

theorem generate_collision_not_retried_witness:
  "requireAdmin cfg_bind (g_token (admin_generate (Some ''a'')))
   \<and> List.member [''S'', ''G'', ''A''] (tier_of_query (g_tier (admin_generate (Some ''a''))))
   \<and> select_by_key [example_row]
        (makeKey (tier_of_query (g_tier (admin_generate (Some ''a'')))) ''00112233445566778899aabb'')
       = Some example_row
   \<and> generate_handler cfg_bind [example_row] (admin_generate (Some ''a'')) 1700000000000
        1700000000001 ''00112233445566778899aabb'' ''id-2'' =
       ([example_row], respond 500 (ErrorBody ''server_error''))"
proof -
  have a: "requireAdmin cfg_bind (g_token (admin_generate (Some ''a'')))"
    by (simp add: admin_generate_def admin_ok)
  have m: "List.member [''S'', ''G'', ''A''] (tier_of_query (g_tier (admin_generate (Some ''a''))))"
    by code_simp
  have c: "select_by_key [example_row]
        (makeKey (tier_of_query (g_tier (admin_generate (Some ''a'')))) ''00112233445566778899aabb'')
       = Some example_row"
    by code_simp
  from generate_collision_not_retried[OF a m c] a m c show ?thesis
    by (intro conjI)
qed

text \<open>
  A collision on the first draw is answered with the server error although another
  draw (here \<^verbatim>\<open>ffeeddccbbaa998877665544\<close>) gives a key that is not stored.
\<close>

theorem generate_collision_counterexample:
  "generate_handler cfg_bind [example_row] (admin_generate (Some ''a'')) 5 6
      ''00112233445566778899aabb'' ''id-2'' =
     ([example_row], respond 500 (ErrorBody ''server_error''))
   \<and> select_by_key [example_row] (makeKey ''A'' ''ffeeddccbbaa998877665544'') = None"
  by code_simp

text \<open>
  C10. For an administrator's generate request whose \<open>tier\<close> parameter is absent, or is one
  of the lower-case letters \<open>s\<close>, \<open>g\<close>, \<open>a\<close>: the answer never has status 400, the tier
  used is \<open>S\<close> for the absent parameter and the upper-case letter otherwise, and when the
  expiry date is representable and neither the id nor the key is already stored, a row
  with that tier and the key \<open>makeKey t hex\<close> is inserted and returned with status 200.
\<close>

theorem generate_tier_default_and_case:
  assumes "requireAdmin cfg (g_token req)"
    and "g_tier req = None \<and> t = ''S'' \<or> g_tier req = Some ''s'' \<and> t = ''S''
       \<or> g_tier req = Some ''g'' \<and> t = ''G'' \<or> g_tier req = Some ''a'' \<and> t = ''A''"
  shows "status (snd (generate_handler cfg d req date_now created hex uuid)) \<noteq> 400
       \<and> (days_or_default (g_days req) = Some n
            \<and> \<bar>date_now + n * 86400000\<bar> \<le> 8640000000000000
            \<and> \<not> list_ex (\<lambda>x. row_id x = uuid \<or> key x = makeKey t hex) d \<longrightarrow>
          generate_handler cfg d req date_now created hex uuid =
            (d @ [\<lparr>row_id = uuid, key = makeKey t hex, tier = t,
                   owner_email = js_or (g_email req) None, created_at = created,
                   expires_at = Some (date_now + n * 86400000), active = True,
                   bound_ip = None, last_seen_ip = None, last_validated = None\<rparr>],
             respond 200
               (GenerateOk (makeKey t hex) (tier_name t) (date_now + n * 86400000) created
                  (js_or (g_email req) None))))"
proof -
  have t: "tier_of_query (g_tier req) = t" and m: "List.member [''S'', ''G'', ''A''] t"
    using assms(2) by (auto simp: tier_of_query_def js_or_def truthy_def toUpperCase_S)
  have 1: "status (snd (generate_handler cfg d req date_now created hex uuid)) \<noteq> 400"
    using assms(1) t m
    by (simp add: generate_handler_def Let_def insert_row_def respond_def
          split: sum.splits)
  have 2: "generate_handler cfg d req date_now created hex uuid =
            (d @ [\<lparr>row_id = uuid, key = makeKey t hex, tier = t,
                   owner_email = js_or (g_email req) None, created_at = created,
                   expires_at = Some (date_now + n * 86400000), active = True,
                   bound_ip = None, last_seen_ip = None, last_validated = None\<rparr>],
             respond 200
               (GenerateOk (makeKey t hex) (tier_name t) (date_now + n * 86400000) created
                  (js_or (g_email req) None)))"
    if "days_or_default (g_days req) = Some n" "\<bar>date_now + n * 86400000\<bar> \<le> 8640000000000000"
       "\<not> list_ex (\<lambda>x. row_id x = uuid \<or> key x = makeKey t hex) d"
    using that assms(1) t m
    by (simp add: generate_handler_def Let_def insert_row_def toISOString_def expiry_time_def)
  show ?thesis using 1 2 by blast
qed

theorem generate_tier_default_and_case_witness:
  "requireAdmin cfg_bind (g_token (admin_generate None))
   \<and> g_tier (admin_generate None) = None
   \<and> \<not> list_ex (\<lambda>x. row_id x = ''id-2'' \<or> key x = makeKey ''S'' ''ffeeddccbbaa998877665544'')
          [example_row]
   \<and> status (snd (generate_handler cfg_bind [example_row] (admin_generate None) 1700000000000
                 1700000000001 ''ffeeddccbbaa998877665544'' ''id-2'')) \<noteq> 400
   \<and> generate_handler cfg_bind [example_row] (admin_generate None) 1700000000000 1700000000001
        ''ffeeddccbbaa998877665544'' ''id-2'' =
       ([example_row,
         \<lparr>row_id = ''id-2'', key = ''S-FFEEDDCCBBAA998877665544'', tier = ''S'',
          owner_email = None, created_at = 1700000000001, expires_at = Some 1702592000000,
          active = True, bound_ip = None, last_seen_ip = None, last_validated = None\<rparr>],
        respond 200
          (GenerateOk ''S-FFEEDDCCBBAA998877665544'' ''Sentinel'' 1702592000000 1700000000001 None))
   \<and> generate_handler cfg_bind [example_row] (admin_generate (Some ''g'')) 1700000000000
        1700000000001 ''ffeeddccbbaa998877665544'' ''id-2'' =
       ([example_row,
         \<lparr>row_id = ''id-2'', key = ''G-FFEEDDCCBBAA998877665544'', tier = ''G'',
          owner_email = None, created_at = 1700000000001, expires_at = Some 1702592000000,
          active = True, bound_ip = None, last_seen_ip = None, last_validated = None\<rparr>],
        respond 200
          (GenerateOk ''G-FFEEDDCCBBAA998877665544'' ''Guardian'' 1702592000000 1700000000001 None))"
proof -
  let ?hex = "''ffeeddccbbaa998877665544''"
  have a: "requireAdmin cfg_bind (g_token (admin_generate t))" for t
    by (simp add: admin_generate_def admin_ok)
  have tS: "g_tier (admin_generate None) = None \<and> ''S'' = ''S''
       \<or> g_tier (admin_generate None) = Some ''s'' \<and> ''S'' = ''S''
       \<or> g_tier (admin_generate None) = Some ''g'' \<and> ''S'' = ''G''
       \<or> g_tier (admin_generate None) = Some ''a'' \<and> ''S'' = ''A''"
    by (simp add: admin_generate_def)
  have tG: "g_tier (admin_generate (Some ''g'')) = None \<and> ''G'' = ''S''
       \<or> g_tier (admin_generate (Some ''g'')) = Some ''s'' \<and> ''G'' = ''S''
       \<or> g_tier (admin_generate (Some ''g'')) = Some ''g'' \<and> ''G'' = ''G''
       \<or> g_tier (admin_generate (Some ''g'')) = Some ''a'' \<and> ''G'' = ''A''"
    by (simp add: admin_generate_def)
  have dy: "days_or_default (g_days (admin_generate t)) = Some 30" for t
    by (simp add: admin_generate_def days_or_default_def)
  have bd: "\<bar>1700000000000 + 30 * 86400000\<bar> \<le> (8640000000000000::int)"
    by simp
  have kS: "makeKey ''S'' ?hex = ''S-FFEEDDCCBBAA998877665544''"
    and kG: "makeKey ''G'' ?hex = ''G-FFEEDDCCBBAA998877665544''"
    by code_simp+
  have fS: "\<not> list_ex (\<lambda>x. row_id x = ''id-2'' \<or> key x = makeKey ''S'' ?hex) [example_row]"
    and fG: "\<not> list_ex (\<lambda>x. row_id x = ''id-2'' \<or> key x = makeKey ''G'' ?hex) [example_row]"
    by (simp_all add: kS kG example_row_def)
  have em: "js_or (g_email (admin_generate t)) None = None" for t
    by (simp add: admin_generate_def js_or_def)
  have tn: "tier_name ''S'' = ''Sentinel''" "tier_name ''G'' = ''Guardian''"
    by (simp_all add: tier_name_def)
  note S = generate_tier_default_and_case[OF a tS, of "[example_row]" 1700000000000
              1700000000001 ?hex "''id-2''" 30]
  note G = generate_tier_default_and_case[OF a tG, of "[example_row]" 1700000000000
              1700000000001 ?hex "''id-2''" 30]
  have s400: "status (snd (generate_handler cfg_bind [example_row] (admin_generate None)
                 1700000000000 1700000000001 ?hex ''id-2'')) \<noteq> 400"
    using S by blast
  have rS: "generate_handler cfg_bind [example_row] (admin_generate None) 1700000000000
        1700000000001 ?hex ''id-2'' =
       ([example_row,
         \<lparr>row_id = ''id-2'', key = ''S-FFEEDDCCBBAA998877665544'', tier = ''S'',
          owner_email = None, created_at = 1700000000001, expires_at = Some 1702592000000,
          active = True, bound_ip = None, last_seen_ip = None, last_validated = None\<rparr>],
        respond 200
          (GenerateOk ''S-FFEEDDCCBBAA998877665544'' ''Sentinel'' 1702592000000 1700000000001 None))"
    using S dy bd fS by (simp add: kS em tn)
  have rG: "generate_handler cfg_bind [example_row] (admin_generate (Some ''g'')) 1700000000000
        1700000000001 ?hex ''id-2'' =
       ([example_row,
         \<lparr>row_id = ''id-2'', key = ''G-FFEEDDCCBBAA998877665544'', tier = ''G'',
          owner_email = None, created_at = 1700000000001, expires_at = Some 1702592000000,
          active = True, bound_ip = None, last_seen_ip = None, last_validated = None\<rparr>],
        respond 200
          (GenerateOk ''G-FFEEDDCCBBAA998877665544'' ''Guardian'' 1702592000000 1700000000001 None))"
    using G dy bd fG by (simp add: kG em tn)
  have n: "g_tier (admin_generate None) = None"
    by (simp add: admin_generate_def)
  from a n fS s400 rS rG show ?thesis
    by (intro conjI)
qed

section \<open>Activating and renewing\<close>

text \<open>
  C8, as the code has it. An administrator's activate request on a stored key, with a
  representable expiry date: the record under the key becomes the old record with
  \<open>active\<close> true, \<open>expires_at = Date.now() + days * 86400000\<close> (whatever the old expiry was)
  and \<open>owner_email\<close> set to the request's \<open>owner_email\<close>, which is NULL when the request
  omits it; the other fields and the records under other keys are unchanged, and the
  answer is \<open>ok\<close> without the \<open>created\<close> flag.
\<close>

theorem activate_known_key:
  assumes "requireAdmin cfg (a_token req)"
    and "a_license req = Some k" and "k \<noteq> []"
    and "select_by_key d k = Some r"
    and "days_or_default (a_days req) = Some n"
    and "\<bar>date_now + n * 86400000\<bar> \<le> 8640000000000000"
    and "activate_handler cfg d req date_now now uuid = (d', resp)"
  shows "resp = respond 200 (ActivateOk k False (date_now + n * 86400000))
       \<and> select_by_key d' k =
           Some (r\<lparr>active := True, expires_at := Some (date_now + n * 86400000),
                   owner_email := a_owner_email req\<rparr>)
       \<and> (\<forall>k'. k' \<noteq> k \<longrightarrow> select_by_key d' k' = select_by_key d k')"
proof -
  let ?f = "\<lambda>x::license_row. x\<lparr>active := True, expires_at := Some (date_now + n * 86400000),
                   owner_email := a_owner_email req\<rparr>"
  have "activate_handler cfg d req date_now now uuid =
          (update_by_key ?f k d, respond 200 (ActivateOk k False (date_now + n * 86400000)))"
    using assms(1-6)
    by (simp add: activate_handler_def truthy_def toISOString_def expiry_time_def)
  with assms(7) have "d' = update_by_key ?f k d"
    and "resp = respond 200 (ActivateOk k False (date_now + n * 86400000))"
    by simp_all
  then show ?thesis using assms(4) by (simp add: select_update)
qed

theorem activate_known_key_witness:
  "requireAdmin cfg_bind (a_token (admin_activate ''A-00112233445566778899AABB'' (Some ''new@example.com'')))
   \<and> select_by_key [example_row\<lparr>active := False\<rparr>] ''A-00112233445566778899AABB''
        = Some (example_row\<lparr>active := False\<rparr>)
   \<and> \<bar>20 + 7 * 86400000\<bar> \<le> (8640000000000000::int)
   \<and> activate_handler cfg_bind [example_row\<lparr>active := False\<rparr>]
        (admin_activate ''A-00112233445566778899AABB'' (Some ''new@example.com'')) 20 21 ''id-2'' =
       ([example_row\<lparr>active := True, expires_at := Some 604800020,
                     owner_email := Some ''new@example.com''\<rparr>],
        respond 200 (ActivateOk ''A-00112233445566778899AABB'' False 604800020))"
proof -
  let ?req = "admin_activate ''A-00112233445566778899AABB'' (Some ''new@example.com'')"
  let ?d = "[example_row\<lparr>active := False\<rparr>]"
  have a: "requireAdmin cfg_bind (a_token ?req)"
    by (simp add: admin_activate_def admin_ok)
  have l: "a_license ?req = Some ''A-00112233445566778899AABB''"
    and ne: "''A-00112233445566778899AABB'' \<noteq> []"
    and dy: "days_or_default (a_days ?req) = Some 7"
    and bd: "\<bar>20 + 7 * 86400000\<bar> \<le> (8640000000000000::int)"
    and em: "a_owner_email ?req = Some ''new@example.com''"
    by (simp_all add: admin_activate_def days_or_default_def)
  have sel: "select_by_key ?d ''A-00112233445566778899AABB'' = Some (example_row\<lparr>active := False\<rparr>)"
    by (simp add: select_by_key_def example_row_def)
  obtain d' resp where run: "activate_handler cfg_bind ?d ?req 20 21 ''id-2'' = (d', resp)"
    by (cases "activate_handler cfg_bind ?d ?req 20 21 ''id-2''")
  from activate_known_key[OF a l ne sel dy bd run]
  have r: "resp = respond 200 (ActivateOk ''A-00112233445566778899AABB'' False 604800020)"
    by simp
  have "d' = [example_row\<lparr>active := True, expires_at := Some 604800020,
                     owner_email := Some ''new@example.com''\<rparr>]"
    using run
    by (simp add: activate_handler_def requireAdmin_def truthy_def days_or_default_def
        expiry_time_def toISOString_def select_by_key_def update_by_key_def
        cfg_bind_def example_row_def admin_activate_def)
  with r run a sel bd show ?thesis by simp
qed

text \<open>
  An activate request without \<open>owner_email\<close> on a record that has one: the statement
  \<^verbatim>\<open>UPDATE licenses SET active = 1, expires_at = ?, owner_email = ?\<close> runs with NULL and
  the stored address is lost.
\<close>

theorem activate_clears_owner_email_counterexample:
  "owner_email example_row = Some ''owner@example.com''
   \<and> activate_handler cfg_bind [example_row]
        (admin_activate ''A-00112233445566778899AABB'' None) 20 21 ''id-2'' =
       ([example_row\<lparr>active := True, expires_at := Some 604800020, owner_email := None\<rparr>],
        respond 200 (ActivateOk ''A-00112233445566778899AABB'' False 604800020))"
  by (simp add: activate_handler_def requireAdmin_def truthy_def days_or_default_def
        expiry_time_def toISOString_def select_by_key_def update_by_key_def
        cfg_bind_def example_row_def admin_activate_def)

text \<open>
  C9. An administrator's renew request that names a key with no stored record is
  answered with status 404 \<open>not_found\<close>, and the table is returned as it was: no record
  is created and none is modified.
\<close>

theorem renew_unknown_key:
  assumes "requireAdmin cfg (r_token req)"
    and "r_license req = Some k" and "k \<noteq> []"
    and "select_by_key d k = None"
  shows "renew_handler cfg d req date_now = (d, respond 404 (ErrorBody ''not_found''))"
  using assms by (simp add: renew_handler_def truthy_def)

theorem renew_unknown_key_witness:
  "requireAdmin cfg_bind (r_token (admin_renew ''X-DOESNOTEXIST''))
   \<and> select_by_key [example_row] ''X-DOESNOTEXIST'' = None
   \<and> renew_handler cfg_bind [example_row] (admin_renew ''X-DOESNOTEXIST'') 1700000000000 =
       ([example_row], respond 404 (ErrorBody ''not_found''))"
proof -
  have a: "requireAdmin cfg_bind (r_token (admin_renew ''X-DOESNOTEXIST''))"
    by (simp add: admin_renew_def admin_ok)
  have l: "r_license (admin_renew ''X-DOESNOTEXIST'') = Some ''X-DOESNOTEXIST''"
    and ne: "''X-DOESNOTEXIST'' \<noteq> []"
    by (simp_all add: admin_renew_def)
  have n: "select_by_key [example_row] ''X-DOESNOTEXIST'' = None"
    by (simp add: select_by_key_def example_row_def)
  from renew_unknown_key[OF a l ne n] a n show ?thesis
    by (intro conjI)
qed

end
